theory Spec2Isabelle
  imports Main "HOL-Library.Word"
begin

section \<open>NumPy arrays, as far as \<^verbatim>\<open>verify.py\<close> uses them\<close>

text \<open>
  An array is its shape together with its elements in row-major order. The element count
  of a well-formed array is the product of its shape (\<^verbatim>\<open>A.size\<close>). The source defines
  no exception class of its own: what can be raised is what Python and NumPy raise.
  \<open>ArrayValued\<close> is not an exception. It marks the one outcome of a tuple assignment that
  a model with scalar-valued names cannot follow: nine names bound to sub-arrays.
\<close>

datatype error = ValueError | TypeError | ArrayValued

record 'a ndarray =
  shape :: "nat list"
  data :: "'a list"

definition wf_ndarray :: "'a ndarray \<Rightarrow> bool" where
  "wf_ndarray X = (length (data X) = prod_list (shape X))"

text \<open>The arrays the docstring asks for: \<^verbatim>\<open>(3, 3) np.ndarray\<close>.\<close>

definition is_3x3 :: "'a ndarray \<Rightarrow> bool" where
  "is_3x3 X = (wf_ndarray X \<and> shape X = [3, 3])"

text \<open>\<^verbatim>\<open>X.ravel()\<close>: the same elements, as a one-dimensional array.\<close>

definition ravel :: "'a ndarray \<Rightarrow> 'a ndarray" where
  "ravel X = \<lparr>shape = [length (data X)], data = data X\<rparr>"

text \<open>
  \<^verbatim>\<open>np.array([...])\<close> of a list of scalars that NumPy stores as they are: a new
  one-dimensional array of the same values. This is the case of NumPy's own fixed-width
  integer scalars, which are what the elements of an integer array such as those of the
  self-test are (their arithmetic wraps around: the word types). It is not the case of
  Python \<^verbatim>\<open>int\<close> objects taken from an object array: for them \<^verbatim>\<open>np.array\<close> chooses
  the element type from the values, see \<open>np_array_pyint\<close> below.
\<close>

definition np_array :: "'a list \<Rightarrow> 'a ndarray" where
  "np_array xs = \<lparr>shape = [length xs], data = xs\<rparr>"

text \<open>\<^verbatim>\<open>X.reshape(shp)\<close> raises \<^verbatim>\<open>ValueError\<close> when the element counts differ.\<close>

definition reshape ::
  "('a, 'm) ndarray_scheme \<Rightarrow> nat list \<Rightarrow> error + ('a, 'm) ndarray_scheme" where
  "reshape X shp =
     (if prod_list shp = length (data X) then Inr (X\<lparr>shape := shp\<rparr>) else Inl ValueError)"

text \<open>
  The tuple assignment \<^verbatim>\<open>x0,x1,x2,x3,x4,x5,x6,x7,x8 = X\<close>. Python iterates over the
  first axis of \<open>X\<close>: an array without axes cannot be iterated (\<^verbatim>\<open>TypeError\<close>), a
  one-dimensional array yields its scalars, and an array of more axes yields as many
  sub-arrays as its first axis is long. Unless exactly nine items come, Python raises
  \<^verbatim>\<open>ValueError\<close> (not enough, or too many, values to unpack). So a 3x3 array itself
  cannot be unpacked into nine names: it yields three rows.
\<close>

definition unpack9 ::
  "'a ndarray \<Rightarrow> error + ('a \<times> 'a \<times> 'a \<times> 'a \<times> 'a \<times> 'a \<times> 'a \<times> 'a \<times> 'a)" where
  "unpack9 X =
     (case shape X of
        [] \<Rightarrow> Inl TypeError
      | [n] \<Rightarrow>
          (case data X of
             [x0, x1, x2, x3, x4, x5, x6, x7, x8] \<Rightarrow> Inr (x0, x1, x2, x3, x4, x5, x6, x7, x8)
           | _ \<Rightarrow> Inl ValueError)
      | n # m # ms \<Rightarrow> (if n = 9 then Inl ArrayValued else Inl ValueError))"

section \<open>The function \<^verbatim>\<open>fast_3x3_rank23\<close>\<close>

text \<open>
  Lines 18 to 85 of \<^verbatim>\<open>verify.py\<close>, statement by statement, for scalars that
  \<^verbatim>\<open>np.array\<close> stores as they are. The scalars are the elements of any type with \<open>+\<close>,
  \<open>-\<close>, unary \<open>-\<close> and \<open>*\<close> obeying the ring laws; rounding arithmetic is not a ring and
  is not modelled. Python's operator precedence and left-to-right grouping are those of
  the HOL operators.
\<close>

definition fast_3x3_rank23 :: "'a::ring ndarray \<Rightarrow> 'a ndarray \<Rightarrow> error + 'a ndarray" where
  "fast_3x3_rank23 A B =
    (case unpack9 (ravel A) of Inl e \<Rightarrow> Inl e
     | Inr (A0, A1, A2, A3, A4, A5, A6, A7, A8) \<Rightarrow>
    (case unpack9 (ravel B) of Inl e \<Rightarrow> Inl e
     | Inr (B0, B1, B2, B3, B4, B5, B6, B7, B8) \<Rightarrow>
      let t0 = A0 - A3;
          t1 = A4 + A5;
          t2 = A6 + A8;
          t3 = A1 + A2;
          t4 = A7 - t1;
          t5 = t0 + t2;

          u0 = B0 - B2;
          u1 = B4 - B7;
          u2 = B1 + u0;
          u3 = B5 - B8;
          u4 = B6 + u3;
          u5 = u1 + u2;

          M0 = (- t3) * (- B7);
          M1 = (- A3 + A4 - A7) * (- u1);
          M2 = (A1 - A3) * u5;
          M3 = (- t0) * (- u0);
          M4 = (- A5) * u3;
          M5 = (A8 + t4) * B7;
          M6 = (- A8) * (- B2 + B7 + B8);
          M7 = t4 * (B5 + B7);
          M8 = (- A7) * (- B3);
          M9 = (A1 + A5) * (- u4);
          M10 = (- t5) * (B2 - B6);
          M11 = (- A6) * B1;
          M12 = (A2 - A5 + t5) * (- B6);
          M13 = (- A0 + A1) * u2;
          M14 = (- A3) * B2;
          M15 = (A6 + t0) * (B0 - B6);
          M16 = A7 * (B4 + B5);
          M17 = t3 * (- B6 + B8);
          M18 = (- t2) * B2;
          M19 = (- A1) * (- B3 + u4 - u5);
          M20 = (- A1 + A4) * B3;
          M21 = (- t1) * (- B5);
          M22 = A3 * (B1 + u1);

          v0 = M4 - M14;
          v1 = M2 + M22;
          v2 = M7 + M21;
          v3 = M9 - v0;
          v4 = M10 - M18;
          v5 = M3 - v1;
          v6 = M5 - v2;
          v7 = M12 + v3;
          v8 = v4 + v7;

          C0 = M19 + v5 - v8;
          C1 = M0 - M13 - v5;
          C2 = M17 - v8;
          C3 = M19 + M20 - v1 - v3;
          C4 = - M1 + M16 + M22 - v2;
          C5 = M21 + v0;
          C6 = - M3 + M8 + M15 + v4;
          C7 = - M11 + M16 + v6;
          C8 = - M6 - M18 - v6
      in reshape (np_array [C0, C1, C2,
                            C3, C4, C5,
                            C6, C7, C8]) [3, 3]))"

section \<open>The reference product\<close>

text \<open>
  The standard row-by-column product of two arrays read as row-major 3x3 matrices: entry
  \<open>(i, j)\<close> is the sum over \<open>k\<close> of \<open>X[i, k] * Y[k, j]\<close>. It is what the spec calls the
  standard matrix product and what \<^verbatim>\<open>A @ B\<close> computes in the self-test of the source.
\<close>

definition entry3 :: "'a ndarray \<Rightarrow> nat \<Rightarrow> nat \<Rightarrow> 'a" where
  "entry3 X i j = data X ! (3 * i + j)"

definition matmul3 :: "'a::ring ndarray \<Rightarrow> 'a ndarray \<Rightarrow> 'a ndarray" where
  "matmul3 X Y =
     \<lparr>shape = [3, 3],
      data = concat (map (\<lambda>i. map (\<lambda>j. \<Sum>k\<leftarrow>[0..<3]. entry3 X i k * entry3 Y k j) [0..<3]) [0..<3])\<rparr>"

section \<open>The body as straight-line code\<close>

text \<open>
  Which value an assignment reads, and how many operations a call performs, are facts
  about the text of the function. The body (lines 22 to 81) is therefore also kept as a
  list of assignments over the source's variable names, with an interpreter that
  evaluates it and counts every operation it executes.
\<close>

datatype var = vA nat | vB nat | vt nat | vu nat | vM nat | vv nat | vC nat

datatype expr =
    Var var
  | Neg expr
  | Add expr expr
  | Sub expr expr
  | Mul expr expr

abbreviation eA :: "nat \<Rightarrow> expr" where "eA i \<equiv> Var (vA i)"
abbreviation eB :: "nat \<Rightarrow> expr" where "eB i \<equiv> Var (vB i)"
abbreviation et :: "nat \<Rightarrow> expr" where "et i \<equiv> Var (vt i)"
abbreviation eu :: "nat \<Rightarrow> expr" where "eu i \<equiv> Var (vu i)"
abbreviation eM :: "nat \<Rightarrow> expr" where "eM i \<equiv> Var (vM i)"
abbreviation ev :: "nat \<Rightarrow> expr" where "ev i \<equiv> Var (vv i)"

type_synonym stmt = "var \<times> expr"

definition pre_additions :: "stmt list" where
  "pre_additions =
    [(vt 0, Sub (eA 0) (eA 3)),
     (vt 1, Add (eA 4) (eA 5)),
     (vt 2, Add (eA 6) (eA 8)),
     (vt 3, Add (eA 1) (eA 2)),
     (vt 4, Sub (eA 7) (et 1)),
     (vt 5, Add (et 0) (et 2)),
     (vu 0, Sub (eB 0) (eB 2)),
     (vu 1, Sub (eB 4) (eB 7)),
     (vu 2, Add (eB 1) (eu 0)),
     (vu 3, Sub (eB 5) (eB 8)),
     (vu 4, Add (eB 6) (eu 3)),
     (vu 5, Add (eu 1) (eu 2))]"

definition products :: "stmt list" where
  "products =
    [(vM 0, Mul (Neg (et 3)) (Neg (eB 7))),
     (vM 1, Mul (Sub (Add (Neg (eA 3)) (eA 4)) (eA 7)) (Neg (eu 1))),
     (vM 2, Mul (Sub (eA 1) (eA 3)) (eu 5)),
     (vM 3, Mul (Neg (et 0)) (Neg (eu 0))),
     (vM 4, Mul (Neg (eA 5)) (eu 3)),
     (vM 5, Mul (Add (eA 8) (et 4)) (eB 7)),
     (vM 6, Mul (Neg (eA 8)) (Add (Add (Neg (eB 2)) (eB 7)) (eB 8))),
     (vM 7, Mul (et 4) (Add (eB 5) (eB 7))),
     (vM 8, Mul (Neg (eA 7)) (Neg (eB 3))),
     (vM 9, Mul (Add (eA 1) (eA 5)) (Neg (eu 4))),
     (vM 10, Mul (Neg (et 5)) (Sub (eB 2) (eB 6))),
     (vM 11, Mul (Neg (eA 6)) (eB 1)),
     (vM 12, Mul (Add (Sub (eA 2) (eA 5)) (et 5)) (Neg (eB 6))),
     (vM 13, Mul (Add (Neg (eA 0)) (eA 1)) (eu 2)),
     (vM 14, Mul (Neg (eA 3)) (eB 2)),
     (vM 15, Mul (Add (eA 6) (et 0)) (Sub (eB 0) (eB 6))),
     (vM 16, Mul (eA 7) (Add (eB 4) (eB 5))),
     (vM 17, Mul (et 3) (Add (Neg (eB 6)) (eB 8))),
     (vM 18, Mul (Neg (et 2)) (eB 2)),
     (vM 19, Mul (Neg (eA 1)) (Sub (Add (Neg (eB 3)) (eu 4)) (eu 5))),
     (vM 20, Mul (Add (Neg (eA 1)) (eA 4)) (eB 3)),
     (vM 21, Mul (Neg (et 1)) (Neg (eB 5))),
     (vM 22, Mul (eA 3) (Add (eB 1) (eu 1)))]"

definition v_aggregates :: "stmt list" where
  "v_aggregates =
    [(vv 0, Sub (eM 4) (eM 14)),
     (vv 1, Add (eM 2) (eM 22)),
     (vv 2, Add (eM 7) (eM 21)),
     (vv 3, Sub (eM 9) (ev 0)),
     (vv 4, Sub (eM 10) (eM 18)),
     (vv 5, Sub (eM 3) (ev 1)),
     (vv 6, Sub (eM 5) (ev 2)),
     (vv 7, Add (eM 12) (ev 3)),
     (vv 8, Add (ev 4) (ev 7))]"

definition outputs :: "stmt list" where
  "outputs =
    [(vC 0, Sub (Add (eM 19) (ev 5)) (ev 8)),
     (vC 1, Sub (Sub (eM 0) (eM 13)) (ev 5)),
     (vC 2, Sub (eM 17) (ev 8)),
     (vC 3, Sub (Sub (Add (eM 19) (eM 20)) (ev 1)) (ev 3)),
     (vC 4, Sub (Add (Add (Neg (eM 1)) (eM 16)) (eM 22)) (ev 2)),
     (vC 5, Add (eM 21) (ev 0)),
     (vC 6, Add (Add (Add (Neg (eM 3)) (eM 8)) (eM 15)) (ev 4)),
     (vC 7, Add (Add (Neg (eM 11)) (eM 16)) (ev 6)),
     (vC 8, Sub (Sub (Neg (eM 6)) (eM 18)) (ev 6))]"

definition body :: "stmt list" where
  "body = pre_additions @ products @ v_aggregates @ outputs"

subsection \<open>Evaluation and operation counts\<close>

text \<open>
  An environment gives every variable its value. Before the body runs, only the eighteen
  unpacked entries are bound; the value \<open>0\<close> of the other names is never read, because
  the body assigns every name before it uses it (\<open>well_scoped\<close> below).
\<close>

type_synonym 'a env = "var \<Rightarrow> 'a"

fun init_env ::
  "('a \<times> 'a \<times> 'a \<times> 'a \<times> 'a \<times> 'a \<times> 'a \<times> 'a \<times> 'a) \<Rightarrow>
   ('a \<times> 'a \<times> 'a \<times> 'a \<times> 'a \<times> 'a \<times> 'a \<times> 'a \<times> 'a) \<Rightarrow> ('a::ring) env" where
  "init_env (A0, A1, A2, A3, A4, A5, A6, A7, A8) (B0, B1, B2, B3, B4, B5, B6, B7, B8) =
     (\<lambda>x. case x of
        vA i \<Rightarrow> [A0, A1, A2, A3, A4, A5, A6, A7, A8] ! i
      | vB i \<Rightarrow> [B0, B1, B2, B3, B4, B5, B6, B7, B8] ! i
      | _ \<Rightarrow> 0)"

fun eval :: "('a::ring) env \<Rightarrow> expr \<Rightarrow> 'a" where
  "eval env (Var x) = env x"
| "eval env (Neg e) = - eval env e"
| "eval env (Add e1 e2) = eval env e1 + eval env e2"
| "eval env (Sub e1 e2) = eval env e1 - eval env e2"
| "eval env (Mul e1 e2) = eval env e1 * eval env e2"

text \<open>
  The operations one evaluation of an expression executes: multiplications, binary
  additions and subtractions, and unary negations, each counted on its own.
\<close>

record opcount =
  muls :: nat
  addsubs :: nat
  negs :: nat

definition no_ops :: opcount where
  "no_ops = \<lparr>muls = 0, addsubs = 0, negs = 0\<rparr>"

definition plus_ops :: "opcount \<Rightarrow> opcount \<Rightarrow> opcount" where
  "plus_ops m n =
     \<lparr>muls = muls m + muls n, addsubs = addsubs m + addsubs n, negs = negs m + negs n\<rparr>"

fun cost :: "expr \<Rightarrow> opcount" where
  "cost (Var x) = no_ops"
| "cost (Neg e) = plus_ops (cost e) \<lparr>muls = 0, addsubs = 0, negs = 1\<rparr>"
| "cost (Add e1 e2) = plus_ops (plus_ops (cost e1) (cost e2)) \<lparr>muls = 0, addsubs = 1, negs = 0\<rparr>"
| "cost (Sub e1 e2) = plus_ops (plus_ops (cost e1) (cost e2)) \<lparr>muls = 0, addsubs = 1, negs = 0\<rparr>"
| "cost (Mul e1 e2) = plus_ops (plus_ops (cost e1) (cost e2)) \<lparr>muls = 1, addsubs = 0, negs = 0\<rparr>"

text \<open>One assignment: evaluate the right-hand side, bind the name, add what it cost.\<close>

fun exec_stmt :: "stmt \<Rightarrow> ('a::ring) env \<times> opcount \<Rightarrow> 'a env \<times> opcount" where
  "exec_stmt (x, e) (env, n) = (env(x := eval env e), plus_ops n (cost e))"

definition exec :: "stmt list \<Rightarrow> ('a::ring) env \<times> opcount \<Rightarrow> 'a env \<times> opcount" where
  "exec ss st = fold exec_stmt ss st"

text \<open>
  The call with its operation counter: unpack \<open>A\<close>, then \<open>B\<close>, run the body, build the
  result from \<open>C0\<close> to \<open>C8\<close>. A call that raises while unpacking has run no statement of
  the body.
\<close>

definition fast_3x3_rank23_counted ::
  "'a::ring ndarray \<Rightarrow> 'a ndarray \<Rightarrow> (error + 'a ndarray) \<times> opcount" where
  "fast_3x3_rank23_counted A B =
    (case unpack9 (ravel A) of Inl e \<Rightarrow> (Inl e, no_ops)
     | Inr a \<Rightarrow>
    (case unpack9 (ravel B) of Inl e \<Rightarrow> (Inl e, no_ops)
     | Inr b \<Rightarrow>
      (case exec body (init_env a b, no_ops) of
         (env, n) \<Rightarrow>
           (reshape (np_array [env (vC 0), env (vC 1), env (vC 2),
                               env (vC 3), env (vC 4), env (vC 5),
                               env (vC 6), env (vC 7), env (vC 8)]) [3, 3], n))))"

subsection \<open>What an assignment reads\<close>

fun vars_of :: "expr \<Rightarrow> var list" where
  "vars_of (Var x) = [x]"
| "vars_of (Neg e) = vars_of e"
| "vars_of (Add e1 e2) = vars_of e1 @ vars_of e2"
| "vars_of (Sub e1 e2) = vars_of e1 @ vars_of e2"
| "vars_of (Mul e1 e2) = vars_of e1 @ vars_of e2"

text \<open>Every name is bound before it is read: \<open>D\<close> lists the names bound so far.\<close>

fun well_scoped :: "var list \<Rightarrow> stmt list \<Rightarrow> bool" where
  "well_scoped D [] = True"
| "well_scoped D ((x, e) # ss) = (list_all (\<lambda>y. y \<in> set D) (vars_of e) \<and> well_scoped (x # D) ss)"

definition inputs :: "var list" where
  "inputs = map vA [0..<9] @ map vB [0..<9]"

fun is_product :: "var \<Rightarrow> bool" where
  "is_product (vM i) = True"
| "is_product _ = False"

text \<open>The right-hand side of the assignment to \<open>v\<^sub>i\<close>, and the aggregates it reads.\<close>

definition v_rhs :: "nat \<Rightarrow> expr" where
  "v_rhs i = snd (v_aggregates ! i)"

definition reads_v :: "nat \<Rightarrow> nat \<Rightarrow> bool" where
  "reads_v i j = (vv j \<in> set (vars_of (v_rhs i)))"

definition reads_earlier_v :: "nat \<Rightarrow> bool" where
  "reads_earlier_v i = list_ex (reads_v i) [0..<i]"

definition reads_products_only :: "nat \<Rightarrow> bool" where
  "reads_products_only i = list_all is_product (vars_of (v_rhs i))"

definition reads_a_product :: "nat \<Rightarrow> bool" where
  "reads_a_product i = list_ex is_product (vars_of (v_rhs i))"

subsection \<open>The shape of the factors of a product\<close>

text \<open>
  A term is a raw entry or a preprocessed term, possibly negated. A factor is read as a
  sum of terms, a subtracted term counting as the added negation of that term.
\<close>

fun is_atom :: "expr \<Rightarrow> bool" where
  "is_atom (Var (vA i)) = True"
| "is_atom (Var (vB i)) = True"
| "is_atom (Var (vt i)) = True"
| "is_atom (Var (vu i)) = True"
| "is_atom _ = False"

fun is_term :: "expr \<Rightarrow> bool" where
  "is_term (Neg e) = is_atom e"
| "is_term e = is_atom e"

fun summands :: "expr \<Rightarrow> expr list" where
  "summands (Add e1 e2) = summands e1 @ summands e2"
| "summands (Sub e1 e2) = summands e1 @ summands e2"
| "summands e = [e]"

definition operand_upto :: "nat \<Rightarrow> expr \<Rightarrow> bool" where
  "operand_upto k e = (list_all is_term (summands e) \<and> length (summands e) \<le> k)"

fun product_upto :: "nat \<Rightarrow> expr \<Rightarrow> bool" where
  "product_upto k (Mul e1 e2) = (operand_upto k e1 \<and> operand_upto k e2)"
| "product_upto k _ = False"

section \<open>Python integers: what \<^verbatim>\<open>np.array\<close> makes of them\<close>

text \<open>
  The elements of an object array are Python objects; when they are Python \<^verbatim>\<open>int\<close>s,
  lines 22 to 81 compute with unbounded integers, exactly. On line 83 \<^verbatim>\<open>np.array\<close>
  then chooses an element type for the nine results from their values. Each integer is
  given the first of \<^verbatim>\<open>int64\<close>, \<^verbatim>\<open>uint64\<close>, \<^verbatim>\<open>object\<close> that can hold it, and the array
  gets the common type of its elements under NumPy's promotion, where \<^verbatim>\<open>int64\<close> and
  \<^verbatim>\<open>uint64\<close> meet in \<^verbatim>\<open>float64\<close>. (This is NumPy on a platform whose default integer
  has 64 bits.)
\<close>

datatype np_dtype = dt_int64 | dt_uint64 | dt_float64 | dt_object

record pyarray = "int ndarray" +
  dtype :: np_dtype

definition fits_int64 :: "int \<Rightarrow> bool" where
  "fits_int64 n = (- (2 ^ 63) \<le> n \<and> n < 2 ^ 63)"

definition fits_uint64 :: "int \<Rightarrow> bool" where
  "fits_uint64 n = (0 \<le> n \<and> n < 2 ^ 64)"

definition dtype_of_int :: "int \<Rightarrow> np_dtype" where
  "dtype_of_int n =
     (if fits_int64 n then dt_int64 else if fits_uint64 n then dt_uint64 else dt_object)"

fun promote :: "np_dtype \<Rightarrow> np_dtype \<Rightarrow> np_dtype" where
  "promote dt_object _ = dt_object"
| "promote _ dt_object = dt_object"
| "promote dt_float64 _ = dt_float64"
| "promote _ dt_float64 = dt_float64"
| "promote dt_int64 dt_int64 = dt_int64"
| "promote dt_uint64 dt_uint64 = dt_uint64"
| "promote _ _ = dt_float64"

definition discover_dtype :: "int list \<Rightarrow> np_dtype" where
  "discover_dtype xs =
     (case map dtype_of_int xs of [] \<Rightarrow> dt_float64 | d # ds \<Rightarrow> fold promote ds d)"

text \<open>
  The value of \<^verbatim>\<open>float(n)\<close>: an integer of at most 53 bits is kept, a longer one is
  rounded to 53 significant bits, to the nearest and to the even one of two nearest. It
  is again an integer. (Overflow to infinity starts far above 64 bits, where
  \<^verbatim>\<open>np.array\<close> has chosen \<^verbatim>\<open>object\<close>.)
\<close>

fun bit_length :: "nat \<Rightarrow> nat" where
  "bit_length n = (if n = 0 then 0 else Suc (bit_length (n div 2)))"

declare bit_length.simps [simp del]

definition float64_of_int :: "int \<Rightarrow> int" where
  "float64_of_int n =
     (let m = nat \<bar>n\<bar>; e = bit_length m in
      if e \<le> 53 then n
      else
        let q = 2 ^ (e - 53); d = m div q; r = m mod q;
            d' = (if 2 * r < q \<or> (2 * r = q \<and> even d) then d else d + 1)
        in sgn n * int (d' * q))"

definition np_array_pyint :: "int list \<Rightarrow> pyarray" where
  "np_array_pyint xs =
     \<lparr>shape = [length xs],
      data = (if discover_dtype xs = dt_float64 then map float64_of_int xs else xs),
      dtype = discover_dtype xs\<rparr>"

text \<open>
  The call on two object arrays of Python integers: the same lines, with line 83 as
  \<open>np_array_pyint\<close>. The body is run by the interpreter of the statement list.
\<close>

definition fast_3x3_rank23_pyint :: "int ndarray \<Rightarrow> int ndarray \<Rightarrow> error + pyarray" where
  "fast_3x3_rank23_pyint A B =
    (case unpack9 (ravel A) of Inl e \<Rightarrow> Inl e
     | Inr a \<Rightarrow>
    (case unpack9 (ravel B) of Inl e \<Rightarrow> Inl e
     | Inr b \<Rightarrow>
      (case exec body (init_env a b, no_ops) of
         (env, n) \<Rightarrow>
           reshape (np_array_pyint [env (vC 0), env (vC 1), env (vC 2),
                                    env (vC 3), env (vC 4), env (vC 5),
                                    env (vC 6), env (vC 7), env (vC 8)]) [3, 3])))"

section \<open>Calls on arrays held in a store\<close>

text \<open>
  Whether a call changes its arguments, and whether its result shares storage with them,
  are questions about buffers. The store is the list of the buffers allocated so far; an
  array object is a view of one whole buffer under a shape, and two views of one buffer
  share their elements. Each NumPy call of the source is a step on the store:
  \<^verbatim>\<open>ravel\<close> of such an array returns a view of the same buffer and leaves the store
  as it is, \<^verbatim>\<open>np.array\<close> allocates a new buffer, and \<^verbatim>\<open>reshape\<close> returns a view of
  the buffer of the array it is called on. How \<^verbatim>\<open>np.array\<close> stores the scalars it is given is the parameter \<open>np\<close>:
  \<open>np_array\<close> or \<open>np_array_pyint\<close>.
\<close>

type_synonym 'a store = "'a list list"

record ndref =
  buf :: nat
  dims :: "nat list"

definition valid_ref :: "'a store \<Rightarrow> ndref \<Rightarrow> bool" where
  "valid_ref s r = (buf r < length s \<and> length (s ! buf r) = prod_list (dims r))"

definition load :: "'a store \<Rightarrow> ndref \<Rightarrow> 'a ndarray" where
  "load s r = \<lparr>shape = dims r, data = s ! buf r\<rparr>"

definition ravel_st :: "'a store \<Rightarrow> ndref \<Rightarrow> ndref \<times> 'a store" where
  "ravel_st s r = (\<lparr>buf = buf r, dims = [length (s ! buf r)]\<rparr>, s)"

definition np_array_st ::
  "('a list \<Rightarrow> ('a, 'm) ndarray_scheme) \<Rightarrow> 'a store \<Rightarrow> 'a list \<Rightarrow> ndref \<times> 'a store" where
  "np_array_st np s xs = (\<lparr>buf = length s, dims = shape (np xs)\<rparr>, s @ [data (np xs)])"

definition reshape_st :: "'a store \<Rightarrow> ndref \<Rightarrow> nat list \<Rightarrow> error + ndref" where
  "reshape_st s r shp =
     (if prod_list shp = length (s ! buf r) then Inr (r\<lparr>dims := shp\<rparr>) else Inl ValueError)"

text \<open>
  The call, line by line: the two tuple assignments read the views that \<^verbatim>\<open>ravel\<close>
  returns (lines 18 and 19), the body computes on the scalars (lines 22 to 81), and the
  result is the reshaped view of the array that \<^verbatim>\<open>np.array\<close> allocates (lines 83 to 85).
\<close>

definition call_fast_3x3_rank23 ::
  "('a list \<Rightarrow> ('a, 'm) ndarray_scheme) \<Rightarrow> 'a::ring store \<Rightarrow> ndref \<Rightarrow> ndref
     \<Rightarrow> (error + ndref) \<times> 'a store" where
  "call_fast_3x3_rank23 np s A B =
    (case ravel_st s A of (rA, s1) \<Rightarrow>
    (case unpack9 (load s1 rA) of Inl e \<Rightarrow> (Inl e, s1)
     | Inr a \<Rightarrow>
    (case ravel_st s1 B of (rB, s2) \<Rightarrow>
    (case unpack9 (load s2 rB) of Inl e \<Rightarrow> (Inl e, s2)
     | Inr b \<Rightarrow>
      (case exec body (init_env a b, no_ops) of
         (env, n) \<Rightarrow>
           (case np_array_st np s2 [env (vC 0), env (vC 1), env (vC 2),
                                    env (vC 3), env (vC 4), env (vC 5),
                                    env (vC 6), env (vC 7), env (vC 8)] of
              (T, s3) \<Rightarrow> (reshape_st s3 T [3, 3], s3)))))))"

section \<open>Basic facts\<close>

lemma length9_cases:
  "length xs = 9 \<Longrightarrow> \<exists>x0 x1 x2 x3 x4 x5 x6 x7 x8. xs = [x0, x1, x2, x3, x4, x5, x6, x7, x8]"
  by (auto simp: length_Suc_conv eval_nat_numeral)

lemma upt3: "[0..<3] = [0, 1, 2]"
  by (simp add: upt_rec)

lemma unpack9_nine:
  "unpack9 (ravel \<lparr>shape = s, data = [x0, x1, x2, x3, x4, x5, x6, x7, x8]\<rparr>) =
     Inr (x0, x1, x2, x3, x4, x5, x6, x7, x8)"
  by (simp add: unpack9_def ravel_def)

lemma unpack9_other: "length (data X) \<noteq> 9 \<Longrightarrow> unpack9 (ravel X) = Inl ValueError"
  by (auto simp: unpack9_def ravel_def split: list.splits)

text \<open>Without \<^verbatim>\<open>ravel\<close> a 3x3 array yields three rows, and the assignment raises.\<close>

lemma unpack9_needs_ravel: "unpack9 \<lparr>shape = [3, 3], data = xs\<rparr> = Inl ValueError"
  by (simp add: unpack9_def)

text \<open>
  After \<^verbatim>\<open>ravel\<close> the assignment has one of two outcomes: nine scalars, or
  \<^verbatim>\<open>ValueError\<close>.
\<close>

lemma unpack9_ravel_outcomes:
  "unpack9 (ravel X) = Inl ValueError \<or> (\<exists>a. unpack9 (ravel X) = Inr a)"
  by (auto simp: unpack9_def ravel_def split: list.splits)

lemma nine_entries:
  assumes "length (data X) = 9"
  obtains s x0 x1 x2 x3 x4 x5 x6 x7 x8
  where "X = \<lparr>shape = s, data = [x0, x1, x2, x3, x4, x5, x6, x7, x8]\<rparr>"
proof -
  obtain x0 x1 x2 x3 x4 x5 x6 x7 x8 where "data X = [x0, x1, x2, x3, x4, x5, x6, x7, x8]"
    using length9_cases [OF assms] by blast
  then have "X = \<lparr>shape = shape X, data = [x0, x1, x2, x3, x4, x5, x6, x7, x8]\<rparr>"
    by (cases X) simp
  then show ?thesis using that by blast
qed

subsection \<open>The reference product, entry by entry\<close>

lemma matmul3_entry:
  fixes X Y :: "'a::ring ndarray"
  assumes "i < 3" and "j < 3"
  shows "entry3 (matmul3 X Y) i j = (\<Sum>k\<leftarrow>[0..<3]. entry3 X i k * entry3 Y k j)"
proof -
  from assms have "i = 0 \<or> i = 1 \<or> i = 2" and "j = 0 \<or> j = 1 \<or> j = 2"
    by auto
  then show ?thesis
    by (elim disjE) (simp_all add: matmul3_def entry3_def upt3 numeral_2_eq_2)
qed

subsection \<open>The algebraic identity\<close>

text \<open>
  On nine entries each, every output of the scheme is the row-by-column sum. Unfolding
  the assignments leaves nine polynomial identities, which hold in every ring: each
  product has its \<open>A\<close>-factor on the left, so not even commutativity is used.
\<close>

lemma scheme_on_entries:
  fixes a0 :: "'a::ring"
  shows "fast_3x3_rank23 \<lparr>shape = sa, data = [a0, a1, a2, a3, a4, a5, a6, a7, a8]\<rparr>
      \<lparr>shape = sb, data = [b0, b1, b2, b3, b4, b5, b6, b7, b8]\<rparr>
    = Inr (matmul3 \<lparr>shape = sa, data = [a0, a1, a2, a3, a4, a5, a6, a7, a8]\<rparr>
      \<lparr>shape = sb, data = [b0, b1, b2, b3, b4, b5, b6, b7, b8]\<rparr>)"
  apply (simp add: fast_3x3_rank23_def unpack9_nine np_array_def reshape_def matmul3_def
      entry3_def upt3 Let_def)
  apply (simp add: algebra_simps)
  done

lemma fast_3x3_rank23_nine:
  fixes A B :: "'a::ring ndarray"
  assumes "length (data A) = 9" and "length (data B) = 9"
  shows "fast_3x3_rank23 A B = Inr (matmul3 A B)"
proof -
  from assms(1) obtain sa a0 a1 a2 a3 a4 a5 a6 a7 a8
    where A: "A = \<lparr>shape = sa, data = [a0, a1, a2, a3, a4, a5, a6, a7, a8]\<rparr>"
    by (rule nine_entries)
  from assms(2) obtain sb b0 b1 b2 b3 b4 b5 b6 b7 b8
    where B: "B = \<lparr>shape = sb, data = [b0, b1, b2, b3, b4, b5, b6, b7, b8]\<rparr>"
    by (rule nine_entries)
  show ?thesis unfolding A B by (rule scheme_on_entries)
qed

lemma fast_3x3_rank23_not_nine:
  fixes A B :: "'a::ring ndarray"
  assumes "length (data A) \<noteq> 9 \<or> length (data B) \<noteq> 9"
  shows "fast_3x3_rank23 A B = Inl ValueError"
proof (cases "length (data A) = 9")
  case False
  then show ?thesis by (simp add: fast_3x3_rank23_def unpack9_other)
next
  case True
  then obtain sa a0 a1 a2 a3 a4 a5 a6 a7 a8
    where A: "A = \<lparr>shape = sa, data = [a0, a1, a2, a3, a4, a5, a6, a7, a8]\<rparr>"
    by (rule nine_entries)
  from True assms have "length (data B) \<noteq> 9" by simp
  then show ?thesis unfolding A by (simp add: fast_3x3_rank23_def unpack9_nine unpack9_other)
qed

subsection \<open>Running the straight-line body\<close>

lemma plus_ops_no_ops [simp]: "plus_ops no_ops n = n" "plus_ops n no_ops = n"
  by (simp_all add: plus_ops_def no_ops_def)

lemma plus_ops_assoc: "plus_ops (plus_ops l m) n = plus_ops l (plus_ops m n)"
  by (simp add: plus_ops_def)

lemma exec_Nil: "exec [] st = st"
  by (simp add: exec_def)

lemma exec_Cons:
  "exec ((x, e) # ss) (env, n) = exec ss (env(x := eval env e), plus_ops n (cost e))"
  by (simp add: exec_def)

lemma exec_append: "exec (ss @ ts) st = exec ts (exec ss st)"
  by (simp add: exec_def)

lemma snd_exec_shift:
  "snd (exec ss (env, plus_ops m n)) = plus_ops m (snd (exec ss (env, n)))"
proof (induction ss arbitrary: env n)
  case Nil
  show ?case by (simp add: exec_Nil)
next
  case (Cons s ss)
  obtain x e where s: "s = (x, e)" by (cases s)
  show ?case unfolding s exec_Cons plus_ops_assoc by (rule Cons.IH)
qed

lemma snd_exec_append:
  "snd (exec (ss @ ts) (env, no_ops)) =
     plus_ops (snd (exec ss (env, no_ops))) (snd (exec ts (fst (exec ss (env, no_ops)), no_ops)))"
proof -
  obtain env' n where st: "exec ss (env, no_ops) = (env', n)"
    by (cases "exec ss (env, no_ops)")
  have "snd (exec ts (env', plus_ops n no_ops)) = plus_ops n (snd (exec ts (env', no_ops)))"
    by (rule snd_exec_shift)
  then show ?thesis by (simp add: exec_append st)
qed

text \<open>No name is read before it is bound, and no name is bound twice.\<close>

lemma body_well_scoped: "well_scoped inputs body"
  by (simp add: inputs_def body_def pre_additions_def products_def v_aggregates_def outputs_def
      upt_rec)

lemma body_single_assignment: "distinct (inputs @ map fst body)"
  by (simp add: inputs_def body_def pre_additions_def products_def v_aggregates_def outputs_def
      upt_rec)

text \<open>The operations of each phase, whatever the values are.\<close>

lemma cost_pre_additions:
  "snd (exec pre_additions (env, no_ops)) = \<lparr>muls = 0, addsubs = 12, negs = 0\<rparr>"
  by (simp add: pre_additions_def exec_Cons exec_Nil plus_ops_def no_ops_def)

lemma cost_products:
  "snd (exec products (env, no_ops)) = \<lparr>muls = 23, addsubs = 20, negs = 24\<rparr>"
  by (simp add: products_def exec_Cons exec_Nil plus_ops_def no_ops_def)

lemma cost_v_aggregates:
  "snd (exec v_aggregates (env, no_ops)) = \<lparr>muls = 0, addsubs = 9, negs = 0\<rparr>"
  by (simp add: v_aggregates_def exec_Cons exec_Nil plus_ops_def no_ops_def)

lemma cost_outputs:
  "snd (exec outputs (env, no_ops)) = \<lparr>muls = 0, addsubs = 19, negs = 4\<rparr>"
  by (simp add: outputs_def exec_Cons exec_Nil plus_ops_def no_ops_def)

lemma cost_body: "snd (exec body (env, no_ops)) = \<lparr>muls = 23, addsubs = 60, negs = 28\<rparr>"
  unfolding body_def
  by (simp add: snd_exec_append cost_pre_additions cost_products cost_v_aggregates cost_outputs)
     (simp add: plus_ops_def)

subsection \<open>The counted call is the call\<close>

lemma counted_on_entries:
  fixes a0 :: "'a::ring"
  shows "fst (fast_3x3_rank23_counted \<lparr>shape = sa, data = [a0, a1, a2, a3, a4, a5, a6, a7, a8]\<rparr>
      \<lparr>shape = sb, data = [b0, b1, b2, b3, b4, b5, b6, b7, b8]\<rparr>)
    = Inr (matmul3 \<lparr>shape = sa, data = [a0, a1, a2, a3, a4, a5, a6, a7, a8]\<rparr>
      \<lparr>shape = sb, data = [b0, b1, b2, b3, b4, b5, b6, b7, b8]\<rparr>)"
  apply (simp add: fast_3x3_rank23_counted_def unpack9_nine np_array_def reshape_def
      matmul3_def entry3_def upt3 exec_Cons exec_Nil body_def pre_additions_def products_def
      v_aggregates_def outputs_def split: prod.splits)
  apply (simp add: algebra_simps)
  done

lemma counted_not_nine:
  fixes A B :: "'a::ring ndarray"
  assumes "length (data A) \<noteq> 9 \<or> length (data B) \<noteq> 9"
  shows "fast_3x3_rank23_counted A B = (Inl ValueError, no_ops)"
proof (cases "length (data A) = 9")
  case False
  then show ?thesis by (simp add: fast_3x3_rank23_counted_def unpack9_other)
next
  case True
  then obtain sa a0 a1 a2 a3 a4 a5 a6 a7 a8
    where A: "A = \<lparr>shape = sa, data = [a0, a1, a2, a3, a4, a5, a6, a7, a8]\<rparr>"
    by (rule nine_entries)
  from True assms have "length (data B) \<noteq> 9" by simp
  then show ?thesis unfolding A
    by (simp add: fast_3x3_rank23_counted_def unpack9_nine unpack9_other)
qed

lemma counted_agrees:
  fixes A B :: "'a::ring ndarray"
  shows "fst (fast_3x3_rank23_counted A B) = fast_3x3_rank23 A B"
proof (cases "length (data A) = 9 \<and> length (data B) = 9")
  case True
  then obtain sa a0 a1 a2 a3 a4 a5 a6 a7 a8
    where A: "A = \<lparr>shape = sa, data = [a0, a1, a2, a3, a4, a5, a6, a7, a8]\<rparr>"
    by (blast elim: nine_entries)
  from True obtain sb b0 b1 b2 b3 b4 b5 b6 b7 b8
    where B: "B = \<lparr>shape = sb, data = [b0, b1, b2, b3, b4, b5, b6, b7, b8]\<rparr>"
    by (blast elim: nine_entries)
  show ?thesis unfolding A B counted_on_entries scheme_on_entries ..
next
  case False
  then have "length (data A) \<noteq> 9 \<or> length (data B) \<noteq> 9" by simp
  then show ?thesis by (simp add: counted_not_nine fast_3x3_rank23_not_nine)
qed

lemma counted_ops_nine:
  fixes A B :: "'a::ring ndarray"
  assumes "length (data A) = 9" and "length (data B) = 9"
  shows "snd (fast_3x3_rank23_counted A B) = \<lparr>muls = 23, addsubs = 60, negs = 28\<rparr>"
proof -
  from assms(1) obtain sa a0 a1 a2 a3 a4 a5 a6 a7 a8
    where A: "A = \<lparr>shape = sa, data = [a0, a1, a2, a3, a4, a5, a6, a7, a8]\<rparr>"
    by (rule nine_entries)
  from assms(2) obtain sb b0 b1 b2 b3 b4 b5 b6 b7 b8
    where B: "B = \<lparr>shape = sb, data = [b0, b1, b2, b3, b4, b5, b6, b7, b8]\<rparr>"
    by (rule nine_entries)
  have "snd (case exec body (env, no_ops) of (env', n) \<Rightarrow> (f env', n))
      = snd (exec body (env, no_ops))"
    for env :: "'a env" and f :: "'a env \<Rightarrow> error + 'a ndarray"
    by (simp split: prod.splits)
  then show ?thesis unfolding A B
    by (simp add: fast_3x3_rank23_counted_def unpack9_nine cost_body)
qed

text \<open>
  Arrays of NumPy's fixed-width integers, such as the \<^verbatim>\<open>int64\<close> arrays of the
  self-test: the scalars are machine words, their arithmetic wraps around, and
  \<^verbatim>\<open>np.array\<close> stores them as they are. There the call returns the product.
\<close>

lemma fast_3x3_rank23_fixed_width:
  fixes A B :: "'l::len word ndarray"
  assumes "is_3x3 A" and "is_3x3 B"
  shows "fast_3x3_rank23 A B = Inr (matmul3 A B)"
  using assms by (intro fast_3x3_rank23_nine) (simp_all add: is_3x3_def wf_ndarray_def)

subsection \<open>Python integers\<close>

lemma bit_length_numeral [simp]:
  "bit_length 0 = 0"
  "bit_length (Suc 0) = 1"
  "bit_length (numeral (Num.Bit0 k)) = Suc (bit_length (numeral k))"
  "bit_length (numeral (Num.Bit1 k)) = Suc (bit_length (numeral k))"
proof -
  show "bit_length 0 = 0"
    by (subst bit_length.simps) simp
  then show "bit_length (Suc 0) = 1"
    by (subst bit_length.simps) simp
  show "bit_length (numeral (Num.Bit0 k)) = Suc (bit_length (numeral k))"
    by (subst bit_length.simps) simp
  show "bit_length (numeral (Num.Bit1 k)) = Suc (bit_length (numeral k))"
    by (subst bit_length.simps) simp
qed

text \<open>Nine results that all fit \<^verbatim>\<open>int64\<close> are stored as they are.\<close>

lemma fold_promote_int64:
  "list_all (\<lambda>d. d = dt_int64) ds \<Longrightarrow> fold promote ds dt_int64 = dt_int64"
  by (induction ds) simp_all

lemma discover_dtype_int64:
  assumes "xs \<noteq> []" and "list_all fits_int64 xs"
  shows "discover_dtype xs = dt_int64"
proof -
  from assms obtain y ys where xs: "xs = y # ys" by (cases xs) auto
  from assms(2) have "list_all (\<lambda>d. d = dt_int64) (map dtype_of_int ys)" and "dtype_of_int y = dt_int64"
    by (simp_all add: xs dtype_of_int_def list_all_iff)
  then show ?thesis
    by (simp add: discover_dtype_def xs fold_promote_int64)
qed

lemma body_on_entries:
  fixes a0 :: "'a::ring"
  assumes "exec body (init_env (a0, a1, a2, a3, a4, a5, a6, a7, a8)
                               (b0, b1, b2, b3, b4, b5, b6, b7, b8), no_ops) = (env, n)"
  shows "[env (vC 0), env (vC 1), env (vC 2), env (vC 3), env (vC 4), env (vC 5),
          env (vC 6), env (vC 7), env (vC 8)]
    = data (matmul3 \<lparr>shape = sa, data = [a0, a1, a2, a3, a4, a5, a6, a7, a8]\<rparr>
        \<lparr>shape = sb, data = [b0, b1, b2, b3, b4, b5, b6, b7, b8]\<rparr>)"
proof -
  have "env = fst (exec body (init_env (a0, a1, a2, a3, a4, a5, a6, a7, a8)
                               (b0, b1, b2, b3, b4, b5, b6, b7, b8), no_ops))"
    by (simp only: assms fst_conv)
  then show ?thesis
    apply (simp add: matmul3_def entry3_def upt3 exec_Cons exec_Nil body_def pre_additions_def
        products_def v_aggregates_def outputs_def)
    apply (simp add: algebra_simps)
    done
qed

lemma fast_3x3_rank23_pyint_in_range:
  assumes "length (data A) = 9" and "length (data B) = 9"
    and "list_all fits_int64 (data (matmul3 A B))"
  shows "fast_3x3_rank23_pyint A B
    = Inr \<lparr>shape = [3, 3], data = data (matmul3 A B), dtype = dt_int64\<rparr>"
proof -
  from assms(1) obtain sa a0 a1 a2 a3 a4 a5 a6 a7 a8
    where A: "A = \<lparr>shape = sa, data = [a0, a1, a2, a3, a4, a5, a6, a7, a8]\<rparr>"
    by (rule nine_entries)
  from assms(2) obtain sb b0 b1 b2 b3 b4 b5 b6 b7 b8
    where B: "B = \<lparr>shape = sb, data = [b0, b1, b2, b3, b4, b5, b6, b7, b8]\<rparr>"
    by (rule nine_entries)
  obtain env n where run: "exec body (init_env (a0, a1, a2, a3, a4, a5, a6, a7, a8)
                               (b0, b1, b2, b3, b4, b5, b6, b7, b8), no_ops) = (env, n)"
    by (cases "exec body (init_env (a0, a1, a2, a3, a4, a5, a6, a7, a8)
                               (b0, b1, b2, b3, b4, b5, b6, b7, b8), no_ops)")
  let ?cs = "[env (vC 0), env (vC 1), env (vC 2), env (vC 3), env (vC 4), env (vC 5),
          env (vC 6), env (vC 7), env (vC 8)]"
  have cs: "?cs = data (matmul3 A B)"
    unfolding A B using run by (rule body_on_entries)
  have "discover_dtype ?cs = dt_int64"
    using assms(3) unfolding cs [symmetric] by (intro discover_dtype_int64) simp_all
  then have "reshape (np_array_pyint ?cs) [3, 3]
      = Inr \<lparr>shape = [3, 3], data = ?cs, dtype = dt_int64\<rparr>"
    by (simp add: np_array_pyint_def reshape_def)
  moreover have "fast_3x3_rank23_pyint A B = reshape (np_array_pyint ?cs) [3, 3]"
    unfolding A B
    by (simp only: fast_3x3_rank23_pyint_def unpack9_nine sum.case run prod.case)
  ultimately have "fast_3x3_rank23_pyint A B
      = Inr \<lparr>shape = [3, 3], data = ?cs, dtype = dt_int64\<rparr>"
    by (simp only:)
  then show ?thesis unfolding cs .
qed

subsection \<open>Calls on a store\<close>

text \<open>
  The view that \<^verbatim>\<open>ravel\<close> returns shares the buffer of its argument, and reading it
  gives the flattened argument.
\<close>

lemma ravel_st_shares: "ravel_st s r = (v, s') \<Longrightarrow> buf v = buf r \<and> s' = s"
  by (auto simp: ravel_st_def)

lemma load_ravel_st: "ravel_st s r = (v, s') \<Longrightarrow> load s' v = ravel (load s r)"
  by (auto simp: load_def ravel_st_def ravel_def)

text \<open>
  Sharing is what a view is: had the view returned by \<^verbatim>\<open>ravel\<close> been reshaped and
  returned, the result would lie on the buffer of the argument.
\<close>

lemma reshaped_view_shares_buffer:
  assumes "ravel_st s r = (v, s')" and "reshape_st s' v shp = Inr c"
  shows "buf c = buf r"
  using assms by (auto simp: ravel_st_def reshape_st_def split: if_splits)

lemma call_unfold:
  "call_fast_3x3_rank23 np s A B =
    (case unpack9 (ravel (load s A)) of Inl e \<Rightarrow> (Inl e, s)
     | Inr a \<Rightarrow>
    (case unpack9 (ravel (load s B)) of Inl e \<Rightarrow> (Inl e, s)
     | Inr b \<Rightarrow>
      (case exec body (init_env a b, no_ops) of
         (env, n) \<Rightarrow>
           (case np_array_st np s [env (vC 0), env (vC 1), env (vC 2),
                                   env (vC 3), env (vC 4), env (vC 5),
                                   env (vC 6), env (vC 7), env (vC 8)] of
              (T, s') \<Rightarrow> (reshape_st s' T [3, 3], s')))))"
  by (simp add: call_fast_3x3_rank23_def ravel_st_def load_def ravel_def split: sum.splits)




text \<open>An array that a call returns lies on the one buffer the call has added.\<close>

lemma result_on_new_buffer:
  fixes s :: "'a::ring store"
  assumes "call_fast_3x3_rank23 np s A B = (Inr C, s')"
  shows "buf C = length s \<and> length s' = Suc (length s) \<and> dims C = [3, 3] \<and> valid_ref s' C"
  using assms
  by (auto simp: call_unfold np_array_st_def reshape_st_def valid_ref_def
      split: sum.splits prod.splits if_splits)

text \<open>With \<open>np_array\<close>, the call on the store returns what the call on the values returns.\<close>

lemma call_result:
  fixes s :: "'a::ring store"
  assumes "call_fast_3x3_rank23 np_array s A B = (r, s')"
  shows "map_sum id (load s') r = fast_3x3_rank23 (load s A) (load s B)"
proof -
  have "map_sum id (load s') r = fst (fast_3x3_rank23_counted (load s A) (load s B))"
    using assms
    unfolding call_unfold fast_3x3_rank23_counted_def
    by (auto simp: np_array_st_def reshape_st_def reshape_def np_array_def load_def
        split: sum.splits prod.splits if_splits)
  then show ?thesis by (simp add: counted_agrees)
qed

section \<open>The product, and where line 83 loses it\<close>

text \<open>
  Claim C1 says that the call returns the exact product over every commutative ring,
  and the docstring promises \<^verbatim>\<open>The product A @ B\<close>. The code does not keep this for
  the ring of the integers held as Python \<^verbatim>\<open>int\<close>s in object arrays. For
  \<open>A = diag(2\<^sup>6\<^sup>3 + 1, 1, 1)\<close> and \<open>B = diag(1, -1, 1)\<close> lines 22 to 81 compute the nine
  entries exactly; on line 83 \<^verbatim>\<open>np.array\<close> finds one entry that needs \<^verbatim>\<open>uint64\<close> among
  entries that fit \<^verbatim>\<open>int64\<close> and stores all nine as \<^verbatim>\<open>float64\<close>. The call returns
  \<open>2\<^sup>6\<^sup>3\<close> at entry \<open>(0, 0)\<close>, where the product has \<open>2\<^sup>6\<^sup>3 + 1\<close>.
\<close>

theorem python_int_product_is_rounded:
  "fast_3x3_rank23_pyint
      \<lparr>shape = [3, 3], data = [9223372036854775809, 0, 0, 0, 1, 0, 0, 0, 1]\<rparr>
      \<lparr>shape = [3, 3], data = [1, 0, 0, 0, -1, 0, 0, 0, 1]\<rparr>
    = Inr \<lparr>shape = [3, 3], data = [9223372036854775808, 0, 0, 0, -1, 0, 0, 0, 1],
           dtype = dt_float64\<rparr>
   \<and> data (matmul3
      \<lparr>shape = [3, 3], data = [9223372036854775809 :: int, 0, 0, 0, 1, 0, 0, 0, 1]\<rparr>
      \<lparr>shape = [3, 3], data = [1, 0, 0, 0, -1, 0, 0, 0, 1]\<rparr>)
    = [9223372036854775809, 0, 0, 0, -1, 0, 0, 0, 1]"
  by (simp add: fast_3x3_rank23_pyint_def unpack9_def ravel_def body_def pre_additions_def products_def
      v_aggregates_def outputs_def exec_Cons exec_Nil reshape_def np_array_pyint_def
      discover_dtype_def dtype_of_int_def fits_int64_def fits_uint64_def float64_of_int_def
      Let_def matmul3_def entry3_def upt3)

section \<open>The pre-additions\<close>

text \<open>
  Claim C2. The body starts with the pre-additions, and once they have run on the
  unpacked entries the twelve names hold \<open>t0 = A0 - A3\<close>, \<open>t1 = A4 + A5\<close>,
  \<open>t2 = A6 + A8\<close>, \<open>t3 = A1 + A2\<close>, \<open>t4 = A7 - t1\<close>, \<open>t5 = t0 + t2\<close> and
  \<open>u0 = B0 - B2\<close>, \<open>u1 = B4 - B7\<close>, \<open>u2 = B1 + u0\<close>, \<open>u3 = B5 - B8\<close>,
  \<open>u4 = B6 + u3\<close>, \<open>u5 = u1 + u2\<close>.
\<close>

theorem pre_additions_values:
  fixes A0 :: "'a::comm_ring"
  assumes "st = (init_env (A0, A1, A2, A3, A4, A5, A6, A7, A8)
                          (B0, B1, B2, B3, B4, B5, B6, B7, B8), no_ops)"
    and "env = fst (exec pre_additions st)"
  shows "exec body st = exec (products @ v_aggregates @ outputs) (exec pre_additions st)
    \<and> env (vt 0) = A0 - A3 \<and> env (vt 1) = A4 + A5 \<and> env (vt 2) = A6 + A8
    \<and> env (vt 3) = A1 + A2 \<and> env (vt 4) = A7 - env (vt 1)
    \<and> env (vt 5) = env (vt 0) + env (vt 2)
    \<and> env (vu 0) = B0 - B2 \<and> env (vu 1) = B4 - B7 \<and> env (vu 2) = B1 + env (vu 0)
    \<and> env (vu 3) = B5 - B8 \<and> env (vu 4) = B6 + env (vu 3)
    \<and> env (vu 5) = env (vu 1) + env (vu 2)"
proof -
  have "exec body st = exec (products @ v_aggregates @ outputs) (exec pre_additions st)"
    by (simp add: body_def exec_append)
  moreover have "env (vt 0) = A0 - A3 \<and> env (vt 1) = A4 + A5 \<and> env (vt 2) = A6 + A8
    \<and> env (vt 3) = A1 + A2 \<and> env (vt 4) = A7 - env (vt 1)
    \<and> env (vt 5) = env (vt 0) + env (vt 2)
    \<and> env (vu 0) = B0 - B2 \<and> env (vu 1) = B4 - B7 \<and> env (vu 2) = B1 + env (vu 0)
    \<and> env (vu 3) = B5 - B8 \<and> env (vu 4) = B6 + env (vu 3)
    \<and> env (vu 5) = env (vu 1) + env (vu 2)"
    unfolding assms by (simp add: pre_additions_def exec_Cons exec_Nil)
  ultimately show ?thesis by simp
qed

theorem pre_additions_values_witness:
  "fst (exec pre_additions
      (init_env (1, 2, 3, 4, 5, 6, 7, 8, 9 :: int) (2, 0, -1, 1, 3, 5, -4, 6, 7), no_ops)) (vt 4)
     = -3
   \<and> fst (exec pre_additions
      (init_env (1, 2, 3, 4, 5, 6, 7, 8, 9 :: int) (2, 0, -1, 1, 3, 5, -4, 6, 7), no_ops)) (vu 5)
     = 0"
  using pre_additions_values [OF refl refl, of 1 2 3 4 5 6 7 8 "9 :: int" 2 0 "-1" 1 3 5 "-4" 6 7]
  by simp

section \<open>What the aggregates read\<close>

text \<open>
  As claim C3 is written, each of \<open>v3\<close> to \<open>v8\<close> reads an earlier aggregate. Line 66
  is \<^verbatim>\<open>v4 = M10 - M18\<close>: \<open>v4\<close> reads no aggregate at all.
\<close>

theorem v4_reads_no_aggregate: "\<not> reads_earlier_v 4"
  by (simp add: reads_earlier_v_def reads_v_def v_rhs_def v_aggregates_def upt_rec)

text \<open>
  Claim C3, amended. The nine assignments of the aggregation phase bind \<open>v0\<close> to \<open>v8\<close>
  in this order. The right-hand sides of \<open>v0\<close>, \<open>v1\<close>, \<open>v2\<close> and \<open>v4\<close> read products
  only. Each of \<open>v3\<close>, \<open>v5\<close>, \<open>v6\<close> and \<open>v7\<close> reads an aggregate bound before it
  together with a product: \<open>v3\<close> reads \<open>v0\<close>, \<open>v5\<close> reads \<open>v1\<close>, \<open>v6\<close> reads \<open>v2\<close> and
  \<open>v7\<close> reads \<open>v3\<close>. Line 70 is \<^verbatim>\<open>v8 = v4 + v7\<close>: \<open>v8\<close> reads the earlier
  aggregates \<open>v4\<close> and \<open>v7\<close> and no product.
\<close>

theorem v_aggregates_dependencies:
  "map fst v_aggregates = map vv [0..<9]
   \<and> reads_products_only 0 \<and> reads_products_only 1 \<and> reads_products_only 2
   \<and> reads_products_only 4
   \<and> reads_earlier_v 3 \<and> reads_a_product 3 \<and> reads_earlier_v 5 \<and> reads_a_product 5
   \<and> reads_earlier_v 6 \<and> reads_a_product 6 \<and> reads_earlier_v 7 \<and> reads_a_product 7
   \<and> reads_earlier_v 8 \<and> \<not> reads_a_product 8
   \<and> reads_v 3 0 \<and> reads_v 5 1 \<and> reads_v 6 2 \<and> reads_v 7 3 \<and> reads_v 8 4 \<and> reads_v 8 7
   \<and> map (\<lambda>i. vars_of (v_rhs i)) [0..<9]
       = [[vM 4, vM 14], [vM 2, vM 22], [vM 7, vM 21], [vM 9, vv 0], [vM 10, vM 18],
          [vM 3, vv 1], [vM 5, vv 2], [vM 12, vv 3], [vv 4, vv 7]]"
  by (simp add: reads_products_only_def reads_a_product_def reads_earlier_v_def reads_v_def
      v_rhs_def v_aggregates_def upt_rec)

section \<open>The factors of the products\<close>

text \<open>
  As claim C4 is written, no factor needs more than two summands. The first factor of
  \<open>M1\<close> (line 38) is \<^verbatim>\<open>-A3 + A4 - A7\<close>, a sum of three terms.
\<close>

theorem M1_factor_has_three_summands: "\<not> product_upto 2 (snd (products ! 1))"
  by (simp add: products_def operand_upto_def)

text \<open>
  Claim C4, amended. The 23 assignments of the multiplication phase bind \<open>M0\<close> to
  \<open>M22\<close> in this order, each to one product of two factors. Every factor is a raw
  entry, a preprocessed term, the negation of one of them, or a sum of at most three of
  these; a factor of three summands occurs in \<open>M1\<close>, \<open>M6\<close>, \<open>M12\<close> and \<open>M19\<close> and in
  no other product. No factor reads a product or an aggregate.
\<close>

theorem products_factors:
  "map fst products = map vM [0..<23]
   \<and> list_all (\<lambda>s. product_upto 3 (snd s)) products
   \<and> filter (\<lambda>i. \<not> product_upto 2 (snd (products ! i))) [0..<23] = [1, 6, 12, 19]"
  by (simp add: products_def operand_upto_def upt_rec)

section \<open>Failures\<close>

text \<open>
  As claim C5 is written, an argument that is not a well-formed 3x3 matrix makes the
  call raise. A vector of nine elements is not a 3x3 array, and the call accepts it: the
  unpacking of line 18 sees only the nine elements \<^verbatim>\<open>ravel\<close> yields.
\<close>

theorem nine_element_vector_accepted:
  "\<not> is_3x3 \<lparr>shape = [9], data = [1, 2, 3, 4, 5, 6, 7, 8, 9 :: int]\<rparr>
   \<and> fast_3x3_rank23 \<lparr>shape = [9], data = [1, 2, 3, 4, 5, 6, 7, 8, 9 :: int]\<rparr>
        \<lparr>shape = [3, 3], data = [1, 0, 0, 0, 1, 0, 0, 0, 1]\<rparr>
      = Inr \<lparr>shape = [3, 3], data = [1, 2, 3, 4, 5, 6, 7, 8, 9]\<rparr>"
  by (simp add: is_3x3_def fast_3x3_rank23_def unpack9_nine np_array_def reshape_def Let_def)

text \<open>
  Claim C5, amended. For arrays \<open>A\<close> and \<open>B\<close> of any shape: when one of them does not
  hold exactly nine elements, the call raises \<^verbatim>\<open>ValueError\<close> (the exception of the
  tuple assignment) and has executed no ring operation; when both hold exactly nine
  elements, the call returns an array. \<^verbatim>\<open>ValueError\<close> is the only error there is, and
  the counted call returns what the call returns.
\<close>

theorem unpacking_is_the_only_failure:
  fixes A B :: "'a::comm_ring ndarray"
  assumes "wf_ndarray A" and "wf_ndarray B"
  shows "fst (fast_3x3_rank23_counted A B) = fast_3x3_rank23 A B
    \<and> (if prod_list (shape A) = 9 \<and> prod_list (shape B) = 9
       then \<exists>C. fast_3x3_rank23 A B = Inr C
       else fast_3x3_rank23 A B = Inl ValueError \<and> snd (fast_3x3_rank23_counted A B) = no_ops)"
  using assms fast_3x3_rank23_nine [of A B] fast_3x3_rank23_not_nine [of A B]
    counted_not_nine [of A B] counted_agrees [of A B]
  by (auto simp: wf_ndarray_def)

theorem unpacking_is_the_only_failure_witness:
  "fast_3x3_rank23_counted \<lparr>shape = [2, 4], data = [1, 2, 3, 4, 5, 6, 7, 8 :: int]\<rparr>
      \<lparr>shape = [3, 3], data = [1, 0, 0, 0, 1, 0, 0, 0, 1]\<rparr> = (Inl ValueError, no_ops)
   \<and> fast_3x3_rank23_counted \<lparr>shape = [3, 3], data = [1, 0, 0, 0, 1, 0, 0, 0, 1]\<rparr>
      \<lparr>shape = [2, 5], data = [1, 2, 3, 4, 5, 6, 7, 8, 9, 10 :: int]\<rparr> = (Inl ValueError, no_ops)"
  using unpacking_is_the_only_failure
      [of "\<lparr>shape = [2, 4], data = [1, 2, 3, 4, 5, 6, 7, 8 :: int]\<rparr>"
        "\<lparr>shape = [3, 3], data = [1, 0, 0, 0, 1, 0, 0, 0, 1]\<rparr>"]
    unpacking_is_the_only_failure
      [of "\<lparr>shape = [3, 3], data = [1, 0, 0, 0, 1, 0, 0, 0, 1]\<rparr>"
        "\<lparr>shape = [2, 5], data = [1, 2, 3, 4, 5, 6, 7, 8, 9, 10 :: int]\<rparr>"]
  by (simp add: wf_ndarray_def prod_eq_iff)

section \<open>Operation counts\<close>

text \<open>
  Claim C6. Every call on well-formed 3x3 arrays performs exactly 23 multiplications and
  exactly 60 additions and subtractions, 83 operations together: the arithmetic
  complexity the docstring names. (The counter also counts the sign changes written in
  the source, 28 unary negations; the claim and the docstring count multiplications,
  additions and subtractions.)
\<close>

theorem operation_counts:
  fixes A B :: "'a::comm_ring ndarray"
  assumes "is_3x3 A" and "is_3x3 B"
  shows "muls (snd (fast_3x3_rank23_counted A B)) = 23
    \<and> addsubs (snd (fast_3x3_rank23_counted A B)) = 60
    \<and> muls (snd (fast_3x3_rank23_counted A B)) + addsubs (snd (fast_3x3_rank23_counted A B)) = 83"
proof -
  from assms have "length (data A) = 9" and "length (data B) = 9"
    by (simp_all add: is_3x3_def wf_ndarray_def)
  then show ?thesis by (simp add: counted_ops_nine)
qed

theorem operation_counts_witness:
  "muls (snd (fast_3x3_rank23_counted
      \<lparr>shape = [3, 3], data = [1, 2, 3, 4, 5, 6, 7, 8, 9 :: int]\<rparr>
      \<lparr>shape = [3, 3], data = [2, 0, -1, 1, 3, 5, -4, 6, 7]\<rparr>)) = 23
   \<and> addsubs (snd (fast_3x3_rank23_counted
      \<lparr>shape = [3, 3], data = [1, 2, 3, 4, 5, 6, 7, 8, 9 :: int]\<rparr>
      \<lparr>shape = [3, 3], data = [2, 0, -1, 1, 3, 5, -4, 6, 7]\<rparr>)) = 60"
  using operation_counts
    [of "\<lparr>shape = [3, 3], data = [1, 2, 3, 4, 5, 6, 7, 8, 9 :: int]\<rparr>"
     "\<lparr>shape = [3, 3], data = [2, 0, -1, 1, 3, 5, -4, 6, 7]\<rparr>"]
  by (simp add: is_3x3_def wf_ndarray_def)

section \<open>The fixed scenarios\<close>

text \<open>
  Claim C7. In every commutative ring with a unit: the product of two zero matrices is
  the zero matrix, the product of two identity matrices is the identity matrix, the
  product of \<open>[[1, 2, 3], [4, 5, 6], [7, 8, 9]]\<close> and the identity matrix is that matrix
  unchanged, and the product of two all-ones matrices has every entry equal to 3.
\<close>

theorem fixed_scenarios:
  "fast_3x3_rank23 \<lparr>shape = [3, 3], data = [0, 0, 0, 0, 0, 0, 0, 0, 0]\<rparr>
      \<lparr>shape = [3, 3], data = [0, 0, 0, 0, 0, 0, 0, 0, 0]\<rparr>
    = Inr \<lparr>shape = [3, 3], data = [0, 0, 0, 0, 0, 0, 0, 0, 0 :: 'a::comm_ring_1]\<rparr>
   \<and> fast_3x3_rank23 \<lparr>shape = [3, 3], data = [1, 0, 0, 0, 1, 0, 0, 0, 1]\<rparr>
      \<lparr>shape = [3, 3], data = [1, 0, 0, 0, 1, 0, 0, 0, 1]\<rparr>
    = Inr \<lparr>shape = [3, 3], data = [1, 0, 0, 0, 1, 0, 0, 0, 1 :: 'a]\<rparr>
   \<and> fast_3x3_rank23 \<lparr>shape = [3, 3], data = [1, 2, 3, 4, 5, 6, 7, 8, 9]\<rparr>
      \<lparr>shape = [3, 3], data = [1, 0, 0, 0, 1, 0, 0, 0, 1]\<rparr>
    = Inr \<lparr>shape = [3, 3], data = [1, 2, 3, 4, 5, 6, 7, 8, 9 :: 'a]\<rparr>
   \<and> fast_3x3_rank23 \<lparr>shape = [3, 3], data = [1, 1, 1, 1, 1, 1, 1, 1, 1]\<rparr>
      \<lparr>shape = [3, 3], data = [1, 1, 1, 1, 1, 1, 1, 1, 1]\<rparr>
    = Inr \<lparr>shape = [3, 3], data = [3, 3, 3, 3, 3, 3, 3, 3, 3 :: 'a]\<rparr>"
  by (simp add: fast_3x3_rank23_def unpack9_nine np_array_def reshape_def Let_def)

text \<open>The same four scenarios on object arrays of Python integers: \<^verbatim>\<open>int64\<close> results.\<close>

lemma fixed_scenarios_pyint:
  "fast_3x3_rank23_pyint \<lparr>shape = [3, 3], data = [0, 0, 0, 0, 0, 0, 0, 0, 0]\<rparr>
      \<lparr>shape = [3, 3], data = [0, 0, 0, 0, 0, 0, 0, 0, 0]\<rparr>
    = Inr \<lparr>shape = [3, 3], data = [0, 0, 0, 0, 0, 0, 0, 0, 0], dtype = dt_int64\<rparr>
   \<and> fast_3x3_rank23_pyint \<lparr>shape = [3, 3], data = [1, 0, 0, 0, 1, 0, 0, 0, 1]\<rparr>
      \<lparr>shape = [3, 3], data = [1, 0, 0, 0, 1, 0, 0, 0, 1]\<rparr>
    = Inr \<lparr>shape = [3, 3], data = [1, 0, 0, 0, 1, 0, 0, 0, 1], dtype = dt_int64\<rparr>
   \<and> fast_3x3_rank23_pyint \<lparr>shape = [3, 3], data = [1, 2, 3, 4, 5, 6, 7, 8, 9]\<rparr>
      \<lparr>shape = [3, 3], data = [1, 0, 0, 0, 1, 0, 0, 0, 1]\<rparr>
    = Inr \<lparr>shape = [3, 3], data = [1, 2, 3, 4, 5, 6, 7, 8, 9], dtype = dt_int64\<rparr>
   \<and> fast_3x3_rank23_pyint \<lparr>shape = [3, 3], data = [1, 1, 1, 1, 1, 1, 1, 1, 1]\<rparr>
      \<lparr>shape = [3, 3], data = [1, 1, 1, 1, 1, 1, 1, 1, 1]\<rparr>
    = Inr \<lparr>shape = [3, 3], data = [3, 3, 3, 3, 3, 3, 3, 3, 3], dtype = dt_int64\<rparr>"
  by (simp add: fast_3x3_rank23_pyint_in_range matmul3_def entry3_def upt3 fits_int64_def)

section \<open>Determinism and purity\<close>



section \<open>Only the element count is checked\<close>

text \<open>
  The call looks at no property of a shape but the element count: once \<^verbatim>\<open>ravel\<close> has
  flattened an argument, the tuple assignment succeeds exactly when nine scalars come.
  For arrays of fixed-width integers of any shape the call so returns the product of the
  two arguments read as row-major 3x3 matrices, or raises \<^verbatim>\<open>ValueError\<close>.
\<close>

lemma nine_elements_fixed_width:
  fixes A B :: "'l::len word ndarray"
  assumes "wf_ndarray A" and "wf_ndarray B"
  shows "fast_3x3_rank23 A B =
    (if prod_list (shape A) = 9 \<and> prod_list (shape B) = 9 then Inr (matmul3 A B)
     else Inl ValueError)"
  using assms fast_3x3_rank23_nine [of A B] fast_3x3_rank23_not_nine [of A B]
  by (auto simp: wf_ndarray_def)

text \<open>
  Claim C9 says that every array of nine elements, whatever its shape, is accepted and
  that the product of the two arguments read as row-major 3x3 matrices is returned. The
  arguments are accepted, but on object arrays of Python \<^verbatim>\<open>int\<close>s the defect of line 83
  shows here as well: for a vector of length 9 holding \<open>diag(2\<^sup>6\<^sup>3 + 1, 1, 1)\<close> and a 1x9
  array holding \<open>diag(1, -1, 1)\<close> the call returns a 3x3 \<^verbatim>\<open>float64\<close> array with \<open>2\<^sup>6\<^sup>3\<close>
  at entry \<open>(0, 0)\<close>, where the product has \<open>2\<^sup>6\<^sup>3 + 1\<close>.
\<close>

theorem nine_element_vector_product_is_rounded:
  "fast_3x3_rank23_pyint
      \<lparr>shape = [9], data = [9223372036854775809, 0, 0, 0, 1, 0, 0, 0, 1]\<rparr>
      \<lparr>shape = [1, 9], data = [1, 0, 0, 0, -1, 0, 0, 0, 1]\<rparr>
    = Inr \<lparr>shape = [3, 3], data = [9223372036854775808, 0, 0, 0, -1, 0, 0, 0, 1],
           dtype = dt_float64\<rparr>
   \<and> data (matmul3
      \<lparr>shape = [9], data = [9223372036854775809 :: int, 0, 0, 0, 1, 0, 0, 0, 1]\<rparr>
      \<lparr>shape = [1, 9], data = [1, 0, 0, 0, -1, 0, 0, 0, 1]\<rparr>)
    = [9223372036854775809, 0, 0, 0, -1, 0, 0, 0, 1]"
  by (simp add: fast_3x3_rank23_pyint_def unpack9_def ravel_def body_def pre_additions_def products_def
      v_aggregates_def outputs_def exec_Cons exec_Nil reshape_def np_array_pyint_def
      discover_dtype_def dtype_of_int_def fits_int64_def fits_uint64_def float64_of_int_def
      Let_def matmul3_def entry3_def upt3)

section \<open>The result is a new array\<close>

text \<open>
  Claim C10 says that the result is a new 3x3 array sharing no storage with an argument,
  and that one array object passed for both arguments gives a new array equal to the
  product of the array with itself. The array returned is new (\<open>result_on_new_buffer\<close>:
  it lies on the buffer that \<^verbatim>\<open>np.array\<close> has added, although the views that
  \<^verbatim>\<open>ravel\<close> returned share the buffers of the arguments), but on object arrays of
  Python \<^verbatim>\<open>int\<close>s it is not the product, by the defect of line 83. For the one object
  \<open>A = diag(2\<^sup>3\<^sup>2 - 1, 1, 1)\<close> on buffer 0 the call returns a view of the new buffer 1,
  which holds \<open>2\<^sup>6\<^sup>4 - 2\<^sup>3\<^sup>3\<close> at entry \<open>(0, 0)\<close> as a \<^verbatim>\<open>float64\<close>, where the product of \<open>A\<close>
  with itself has \<open>2\<^sup>6\<^sup>4 - 2\<^sup>3\<^sup>3 + 1\<close>.
\<close>

theorem same_object_square_is_rounded:
  "call_fast_3x3_rank23 np_array_pyint [[4294967295, 0, 0, 0, 1, 0, 0, 0, 1]]
      \<lparr>buf = 0, dims = [3, 3]\<rparr> \<lparr>buf = 0, dims = [3, 3]\<rparr>
    = (Inr \<lparr>buf = 1, dims = [3, 3]\<rparr>,
       [[4294967295, 0, 0, 0, 1, 0, 0, 0, 1],
        [18446744065119617024, 0, 0, 0, 1, 0, 0, 0, 1]])
   \<and> dtype (np_array_pyint [18446744065119617025, 0, 0, 0, 1, 0, 0, 0, 1]) = dt_float64
   \<and> data (matmul3
       (load [[4294967295 :: int, 0, 0, 0, 1, 0, 0, 0, 1]] \<lparr>buf = 0, dims = [3, 3]\<rparr>)
       (load [[4294967295, 0, 0, 0, 1, 0, 0, 0, 1]] \<lparr>buf = 0, dims = [3, 3]\<rparr>))
    = [18446744065119617025, 0, 0, 0, 1, 0, 0, 0, 1]"
  by (simp add: call_fast_3x3_rank23_def load_def ravel_st_def unpack9_def body_def pre_additions_def
      products_def v_aggregates_def outputs_def exec_Cons exec_Nil np_array_st_def reshape_st_def
      np_array_pyint_def discover_dtype_def dtype_of_int_def fits_int64_def fits_uint64_def
      float64_of_int_def Let_def matmul3_def entry3_def upt3)

end
